theory Spec2Isabelle
  imports Main
begin

section \<open>Python values and the operations the handlers apply to them\<close>

text \<open>
  Values decoded from JSON (the selection payload, the content provider's answers).
  Python's \<open>None\<close> is \<open>JNull\<close>; a dict is an association list in insertion order.
  JSON numbers are kept as integers and \<open>==\<close> is read as equality of these values
  (no float, no \<open>True == 1\<close>).
\<close>

datatype json =
    JNull
  | JBool bool
  | JInt int
  | JStr string
  | JList "json list"
  | JObj "(string \<times> json) list"

datatype py_error =
    JSONDecodeError
  | TypeError
  | KeyError json
  | IndexError
  | AttributeError
  | UnboundLocalError
  | ProviderError
  | MachineError

text \<open>\<open>x[k]\<close> with a string key.\<close>

fun getitem_key :: "json \<Rightarrow> string \<Rightarrow> py_error + json" where
  "getitem_key (JObj kvs) k =
     (case map_of kvs k of None \<Rightarrow> Inl (KeyError (JStr k)) | Some v \<Rightarrow> Inr v)"
| "getitem_key _ k = Inl TypeError"

text \<open>\<open>xs[i]\<close> on a Python sequence: a negative index counts from the end.\<close>

definition seq_index :: "'a list \<Rightarrow> int \<Rightarrow> py_error + 'a" where
  "seq_index xs i =
     (if 0 \<le> i
      then (if i < int (length xs) then Inr (xs ! nat i) else Inl IndexError)
      else (if - int (length xs) \<le> i then Inr (xs ! nat (int (length xs) + i))
            else Inl IndexError))"

text \<open>\<open>x[i]\<close> with an integer index.\<close>

fun getitem_int :: "json \<Rightarrow> int \<Rightarrow> py_error + json" where
  "getitem_int (JList xs) i = seq_index xs i"
| "getitem_int (JStr s) i =
     (case seq_index s i of Inl e \<Rightarrow> Inl e | Inr c \<Rightarrow> Inr (JStr [c]))"
| "getitem_int (JObj kvs) i = Inl (KeyError (JInt i))"
| "getitem_int _ i = Inl TypeError"

text \<open>The elements \<open>for x in v\<close> runs over.\<close>

fun py_iter :: "json \<Rightarrow> py_error + json list" where
  "py_iter (JList xs) = Inr xs"
| "py_iter (JStr s) = Inr (map (\<lambda>c. JStr [c]) s)"
| "py_iter (JObj kvs) = Inr (map (\<lambda>(k, v). JStr k) kvs)"
| "py_iter _ = Inl TypeError"

text \<open>\<open>v.items()\<close>: only a dict has the method.\<close>

fun py_items :: "json \<Rightarrow> py_error + (string \<times> json) list" where
  "py_items (JObj kvs) = Inr kvs"
| "py_items _ = Inl AttributeError"

text \<open>\<open>sep.join(v)\<close>: every element of the iterable must be a string.\<close>

fun join_strs :: "string \<Rightarrow> json list \<Rightarrow> py_error + string" where
  "join_strs sep [] = Inr []"
| "join_strs sep [JStr s] = Inr s"
| "join_strs sep (JStr s # x # xs) =
     (case join_strs sep (x # xs) of Inl e \<Rightarrow> Inl e | Inr r \<Rightarrow> Inr (s @ sep @ r))"
| "join_strs sep (_ # xs) = Inl TypeError"

definition py_join :: "string \<Rightarrow> json \<Rightarrow> py_error + string" where
  "py_join sep v = (case py_iter v of Inl e \<Rightarrow> Inl e | Inr xs \<Rightarrow> join_strs sep xs)"

text \<open>\<open>'literal' + v\<close>: the right operand must be a string.\<close>

fun str_concat :: "string \<Rightarrow> json \<Rightarrow> py_error + string" where
  "str_concat s (JStr t) = Inr (s @ t)"
| "str_concat s _ = Inl TypeError"

definition json_of_str :: "string option \<Rightarrow> json" where
  "json_of_str x = (case x of None \<Rightarrow> JNull | Some s \<Rightarrow> JStr s)"


section \<open>The data model of \<open>teacher_bot_new.py\<close>\<close>

text \<open>The values of \<open>Status\<close> the flow assigns.\<close>

datatype status = WAIT_FOR_ME | MOVE_FORWARD | WAIT_FOR_USER_INPUT | WAIT_FOR_CALLBACK

text \<open>The entries of \<open>TeacherCompetencyFSM.states\<close>.\<close>

datatype state =
    Zero
  | Language_selection
  | Welcome_message_display
  | Collect_name
  | Collect_name_logic
  | Collect_subject
  | Collect_subject_logic
  | Collect_grade
  | Collect_grade_logic
  | Confirmation
  | Show_question
  | Question_answer_input
  | Answer_input_logic
  | Waiting_message
  | Calculate_score
  | Thankyou_message
  | Home_screen
  | Home_screen_logic
  | Learn_competencies
  | Assessment
  | Resources_tips
  | Help_support
  | End

text \<open>
  \<open>TeacherCompetencyVariables\<close>. The model is not validated on assignment, so the fields
  that receive data decoded from JSON hold any \<open>json\<close> value (\<open>JNull\<close> for \<open>None\<close>).
\<close>

record teacher_competency_variables =
  name :: "string option"
  language :: "string option"
  subject :: "string option"
  grade :: "string option"
  competency_domain :: "string option"
  quiz_score :: "int option"
  home_screen_option :: json
  question_list :: json
  total_num_question :: int
  question_count :: int
  current_question_id :: json
  user_input_param :: json

definition default_variables :: teacher_competency_variables where
  "default_variables =
     \<lparr>name = None, language = None, subject = None, grade = None,
      competency_domain = None, quiz_score = None, home_screen_option = JNull,
      question_list = JNull, total_num_question = 5, question_count = 0,
      current_question_id = JNull, user_input_param = JList []\<rparr>"

text \<open>
  Outbound messages. A body built by an f-string is the list of its fragments: \<open>Lit\<close> a
  literal piece, \<open>Val v\<close> the text \<open>str(v)\<close> of an interpolated value. \<open>Option\<close> takes
  \<open>option_id\<close> and \<open>option_text\<close>; \<open>ButtonMessage\<close> takes body, header, footer and options;
  \<open>ListMessage\<close> takes body, header, footer, button_text, list_title and options.
\<close>

datatype piece = Lit string | Val json

datatype opt = Option string json

datatype message =
    TextMessage "piece list"
  | ButtonMessage "piece list" string string "opt list"
  | ListMessage "piece list" string string string string "opt list"

text \<open>
  One FSM instance: the current state, \<open>self.status\<close>, \<open>self.variables\<close>,
  \<open>self.current_input\<close>, and three logs kept to observe a run: the messages handed to
  \<open>send_message\<close>, every assignment to \<open>self.status\<close>, and the states entered, each
  oldest first.
\<close>

record fsm =
  state :: state
  status :: status
  variables :: teacher_competency_variables
  current_input :: "string option"
  outbox :: "message list"
  status_writes :: "status list"
  trace :: "state list"

type_synonym result = "(py_error \<times> fsm) + fsm"

text \<open>
  What a handler asks the content provider (\<open>Parser.parse_user_input\<close>): the task and the
  variables its prompt interpolates.
\<close>

datatype llm_request =
    Competencies_task "string option" "string option"
  | Quiz_task "string option" "string option" int
  | Score_task "string option" "string option" json json
  | Resources_task "string option" "string option"

text \<open>
  The collaborators that are not part of this file: the content provider, which returns any
  value or raises; \<open>json.loads\<close>; and the base class's \<open>_on_enter_select_language\<close>.
\<close>

record env =
  parse_user_input :: "llm_request \<Rightarrow> py_error + json"
  loads :: "string \<Rightarrow> py_error + json"
  select_language :: "fsm \<Rightarrow> result"

definition set_status :: "status \<Rightarrow> fsm \<Rightarrow> fsm" where
  "set_status s f = f\<lparr>status := s, status_writes := status_writes f @ [s]\<rparr>"

definition send_message :: "message \<Rightarrow> fsm \<Rightarrow> fsm" where
  "send_message m f = f\<lparr>outbox := outbox f @ [m]\<rparr>"

section \<open>Guards\<close>

definition is_learn_competencies_selected :: "teacher_competency_variables \<Rightarrow> bool" where
  "is_learn_competencies_selected v = (home_screen_option v = JStr ''competencies'')"

definition is_assessment_selected :: "teacher_competency_variables \<Rightarrow> bool" where
  "is_assessment_selected v = (home_screen_option v = JStr ''assessment'')"

definition is_resources_tips_selected :: "teacher_competency_variables \<Rightarrow> bool" where
  "is_resources_tips_selected v = (home_screen_option v = JStr ''resources'')"

definition is_help_support_selected :: "teacher_competency_variables \<Rightarrow> bool" where
  "is_help_support_selected v = (home_screen_option v = JStr ''help'')"

definition is_send_another_question :: "teacher_competency_variables \<Rightarrow> bool" where
  "is_send_another_question v =
     (if total_num_question v = question_count v then False else True)"

section \<open>State handlers\<close>

text \<open>
  A step that may raise inside a handler: the exception leaves the handler with the FSM as
  it is at that point (assignments already made stay), otherwise the handler goes on.
\<close>

definition raise_or :: "fsm \<Rightarrow> py_error + 'a \<Rightarrow> ('a \<Rightarrow> (py_error \<times> fsm) + 'b) \<Rightarrow> (py_error \<times> fsm) + 'b" where
  "raise_or f r k = (case r of Inl err \<Rightarrow> Inl (err, f) | Inr v \<Rightarrow> k v)"

definition standard_ask_again :: "piece list option \<Rightarrow> fsm \<Rightarrow> fsm" where
  "standard_ask_again message f =
     (let f1 = set_status WAIT_FOR_ME f;
          msg = (case message of
                   None \<Rightarrow> [Lit ''Sorry, I did not understand your question. Can you tell me again?'']
                 | Some m \<Rightarrow> m);
          f2 = send_message (TextMessage msg) f1
      in set_status MOVE_FORWARD f2)"

definition on_enter_language_selection :: "env \<Rightarrow> fsm \<Rightarrow> result" where
  "on_enter_language_selection e f = select_language e f"

text \<open>The welcome text ends with U+1F60A, written here as its four UTF-8 bytes.\<close>

definition smiley :: string where
  "smiley = [CHR 0xF0, CHR 0x9F, CHR 0x98, CHR 0x8A]"

definition on_enter_welcome_message_display :: "fsm \<Rightarrow> fsm" where
  "on_enter_welcome_message_display f =
     (let f1 = set_status WAIT_FOR_ME f;
          message = [Lit (''Welcome to the Teacher Competency Tool! Let's start your journey to becoming an even more amazing teacher! '' @ smiley)];
          f2 = send_message (TextMessage message) f1
      in set_status MOVE_FORWARD f2)"

definition on_enter_collect_name :: "fsm \<Rightarrow> fsm" where
  "on_enter_collect_name f =
     (let f1 = set_status WAIT_FOR_ME f;
          message = [Lit ''Please enter your name.''];
          f2 = send_message (TextMessage message) f1
      in set_status WAIT_FOR_USER_INPUT f2)"

definition on_enter_collect_name_logic :: "fsm \<Rightarrow> fsm" where
  "on_enter_collect_name_logic f =
     (let f1 = set_status WAIT_FOR_ME f;
          f2 = f1\<lparr>variables := (variables f1)\<lparr>name := current_input f1\<rparr>\<rparr>
      in set_status MOVE_FORWARD f2)"

definition on_enter_collect_subject :: "fsm \<Rightarrow> fsm" where
  "on_enter_collect_subject f =
     (let f1 = set_status WAIT_FOR_ME f;
          message = [Lit ''What subject do you teach?''];
          f2 = send_message (TextMessage message) f1
      in set_status WAIT_FOR_USER_INPUT f2)"

definition on_enter_collect_subject_logic :: "fsm \<Rightarrow> fsm" where
  "on_enter_collect_subject_logic f =
     (let f1 = set_status WAIT_FOR_ME f;
          f2 = f1\<lparr>variables := (variables f1)\<lparr>subject := current_input f1\<rparr>\<rparr>
      in set_status MOVE_FORWARD f2)"

definition on_enter_collect_grade :: "fsm \<Rightarrow> fsm" where
  "on_enter_collect_grade f =
     (let f1 = set_status WAIT_FOR_ME f;
          message = [Lit ''Which grade do you teach?''];
          f2 = send_message (TextMessage message) f1
      in set_status WAIT_FOR_USER_INPUT f2)"

definition on_enter_collect_grade_logic :: "fsm \<Rightarrow> fsm" where
  "on_enter_collect_grade_logic f =
     (let f1 = set_status WAIT_FOR_ME f;
          f2 = f1\<lparr>variables := (variables f1)\<lparr>grade := current_input f1\<rparr>\<rparr>
      in set_status MOVE_FORWARD f2)"

definition on_enter_confirmation :: "fsm \<Rightarrow> fsm" where
  "on_enter_confirmation f =
     (let f1 = set_status WAIT_FOR_ME f;
          v = variables f1;
          message = [Lit ''Thank you, '', Val (json_of_str (name v)), Lit ''! You teach '',
                     Val (json_of_str (subject v)), Lit '' for Grade '',
                     Val (json_of_str (grade v)), Lit ''. Let's begin!''];
          f2 = send_message (TextMessage message) f1
      in set_status MOVE_FORWARD f2)"

definition on_enter_home_screen :: "fsm \<Rightarrow> fsm" where
  "on_enter_home_screen f =
     (let f1 = set_status WAIT_FOR_ME f;
          message = [Lit ''What would you like to do today?''];
          slots = [Option ''competencies'' (JStr ''Learn about competencies''),
                   Option ''assessment'' (JStr ''Take an assessment''),
                   Option ''resources'' (JStr ''Resources & Tips''),
                   Option ''help'' (JStr ''Help/Support'')];
          f2 = send_message (ButtonMessage message [] [] slots) f1
      in set_status WAIT_FOR_USER_INPUT f2)"

text \<open>
  \<open>json.loads(None)\<close> is a \<open>TypeError\<close>; the decoded value is indexed with \<open>[0]\<close> and then
  with \<open>["option_id"]\<close>, and nothing catches what these raise.
\<close>

definition on_enter_home_screen_logic :: "env \<Rightarrow> fsm \<Rightarrow> result" where
  "on_enter_home_screen_logic e f =
     (let f1 = set_status WAIT_FOR_ME f in
      raise_or f1 (case current_input f1 of None \<Rightarrow> Inl TypeError | Some s \<Rightarrow> loads e s)
        (\<lambda>options_list.
      raise_or f1 (getitem_int options_list 0) (\<lambda>first.
      raise_or f1 (getitem_key first ''option_id'') (\<lambda>option_id.
        (let f2 = f1\<lparr>variables := (variables f1)\<lparr>home_screen_option := option_id\<rparr>\<rparr>
         in Inr (set_status MOVE_FORWARD f2))))))"

text \<open>
  The loop of \<open>on_enter_learn_competencies\<close>: one message per competency; the first one
  starts with the introduction, the following ones with the empty string. A competency
  that lacks a key stops the loop after the messages already sent.
\<close>

fun send_competencies :: "piece list \<Rightarrow> json list \<Rightarrow> fsm \<Rightarrow> result" where
  "send_competencies message [] f = Inr f"
| "send_competencies message (competency # rest) f =
     raise_or f (getitem_key competency ''category'') (\<lambda>category.
     raise_or f (getitem_key competency ''description'') (\<lambda>description.
     raise_or f (getitem_key competency ''examples'') (\<lambda>examples.
     raise_or f (py_join '', '' examples) (\<lambda>joined.
       (let message1 = message @ [Lit ''*Category:* '', Val category,
                         Lit (CHR 0x0A # ''*Description:* ''), Val description,
                         Lit (CHR 0x0A # ''*Examples:* ''), Lit joined];
            f1 = send_message (TextMessage message1) f
        in send_competencies [] rest f1)))))"

definition on_enter_learn_competencies :: "env \<Rightarrow> fsm \<Rightarrow> result" where
  "on_enter_learn_competencies e f =
     (let f1 = set_status WAIT_FOR_ME f;
          grade1 = grade (variables f1);
          subject1 = subject (variables f1);
          message = [Lit ''Let's learn about the essential competencies for teaching grade *'',
                     Val (json_of_str grade1), Lit ''* *'', Val (json_of_str subject1),
                     Lit (''*.'' @ [CHR 0x0A])]
      in raise_or f1 (parse_user_input e (Competencies_task grade1 subject1)) (\<lambda>result.
         raise_or f1 (getitem_key result ''competencies'') (\<lambda>competencies.
         raise_or f1 (py_iter competencies) (\<lambda>items.
           (case send_competencies message items f1 of
              Inl err \<Rightarrow> Inl err
            | Inr f2 \<Rightarrow> Inr (set_status MOVE_FORWARD f2))))))"

definition on_enter_assessment :: "fsm \<Rightarrow> fsm" where
  "on_enter_assessment f =
     (let f1 = set_status WAIT_FOR_ME f;
          f2 = f1\<lparr>variables := (variables f1)\<lparr>question_count := 0\<rparr>\<rparr>;
          f3 = f2\<lparr>variables := (variables f2)\<lparr>user_input_param := JList []\<rparr>\<rparr>;
          f4 = f3\<lparr>variables := (variables f3)\<lparr>question_list := JNull\<rparr>\<rparr>;
          f5 = f4\<lparr>variables := (variables f4)\<lparr>current_question_id := JNull\<rparr>\<rparr>;
          message = [Lit ''Ready for a quick quiz on '', Val (json_of_str (subject (variables f5))),
                     Lit (''? Let's go! '' @ smiley)];
          f6 = send_message (TextMessage message) f5
      in set_status MOVE_FORWARD f6)"

definition on_enter_preparing_question :: "fsm \<Rightarrow> fsm" where
  "on_enter_preparing_question f =
     (let f1 = set_status WAIT_FOR_ME f;
          message = [Lit ''Please wait while we are preparing question for you.''];
          f2 = send_message (TextMessage message) f1
      in set_status MOVE_FORWARD f2)"

text \<open>
  \<open>result['result']\<close> is read before the \<open>try\<close>; the assignment inside the \<open>try\<close> cannot
  raise, so its \<open>except\<close> branch has no counterpart here.
\<close>

definition get_question_from_openai :: "env \<Rightarrow> fsm \<Rightarrow> (py_error \<times> fsm) + (json \<times> fsm)" where
  "get_question_from_openai e f =
     (let grade1 = grade (variables f);
          subject1 = subject (variables f);
          total_num_question1 = total_num_question (variables f)
      in raise_or f (parse_user_input e (Quiz_task grade1 subject1 total_num_question1))
           (\<lambda>result.
         raise_or f (getitem_key result ''result'') (\<lambda>result1.
           (let f1 = f\<lparr>variables := (variables f)\<lparr>question_list := result1\<rparr>\<rparr>
            in Inr (result1, f1)))))"

text \<open>
  The locals \<open>question\<close> and \<open>question_id\<close> start as the empty string; \<open>options\<close> is bound
  only by one of the two \<open>if\<close> bodies, and reading it unbound is an \<open>UnboundLocalError\<close>.
\<close>

definition on_enter_show_question :: "env \<Rightarrow> fsm \<Rightarrow> result" where
  "on_enter_show_question e f =
     (let f1 = set_status WAIT_FOR_CALLBACK f;
          question = [];
          question_id = JStr [];
          options = None
      in case (if question_list (variables f1) = JNull
               then (case get_question_from_openai e f1 of
                       Inl err \<Rightarrow> Inl err
                     | Inr (get_question, f2) \<Rightarrow>
                         raise_or f2 (getitem_int get_question 0) (\<lambda>q0.
                         raise_or f2 (getitem_key q0 ''question'') (\<lambda>q.
                         raise_or f2 (str_concat ''Question 1: '' q) (\<lambda>question1.
                         raise_or f2 (getitem_key q0 ''question_id'') (\<lambda>question_id1.
                         raise_or f2 (getitem_key q0 ''options'') (\<lambda>options1.
                           Inr (f2, [Lit question1], question_id1, Some options1)))))))
               else Inr (f1, question, question_id, options)) of
           Inl err \<Rightarrow> Inl err
         | Inr (f2, question, question_id, options) \<Rightarrow>
             (case (if question_count (variables f2) \<noteq> 0
                    then (let next_question_num = question_count (variables f2)
                          in raise_or f2 (getitem_int (question_list (variables f2)) next_question_num)
                               (\<lambda>qn.
                             raise_or f2 (getitem_key qn ''question'') (\<lambda>q.
                             raise_or f2 (str_concat '': '' q) (\<lambda>tail.
                             raise_or f2 (getitem_key qn ''question_id'') (\<lambda>question_id1.
                             raise_or f2 (getitem_key qn ''options'') (\<lambda>options1.
                               Inr ([Lit ''Question '', Val (JInt (next_question_num + 1)), Lit tail],
                                    question_id1, Some options1)))))))
                    else Inr (question, question_id, options)) of
                Inl err \<Rightarrow> Inl err
              | Inr (question, question_id, options) \<Rightarrow>
                  (case options of
                     None \<Rightarrow> Inl (UnboundLocalError, f2)
                   | Some options1 \<Rightarrow>
                       raise_or f2 (py_items options1) (\<lambda>kvs.
                         (let options_list = map (\<lambda>(key, value). Option key value) kvs;
                              message = question;
                              f3 = send_message
                                     (ListMessage message [] [] ''Question Answer''
                                        ''Question Answer'' options_list) f2;
                              f4 = f3\<lparr>variables := (variables f3)\<lparr>current_question_id := question_id\<rparr>\<rparr>
                          in Inr (set_status MOVE_FORWARD f4))))))"

definition on_enter_question_answer_input :: "fsm \<Rightarrow> fsm" where
  "on_enter_question_answer_input f =
     (let f1 = set_status WAIT_FOR_ME f;
          value = question_count (variables f1);
          f2 = f1\<lparr>variables := (variables f1)\<lparr>question_count := value + 1\<rparr>\<rparr>
      in set_status WAIT_FOR_USER_INPUT f2)"

text \<open>The comprehension \<open>[q for q in question_list if q["question_id"] == current_question_id]\<close>.\<close>

fun filter_question_id :: "json list \<Rightarrow> json \<Rightarrow> py_error + json list" where
  "filter_question_id [] cid = Inr []"
| "filter_question_id (ques_list # rest) cid =
     (case getitem_key ques_list ''question_id'' of
        Inl err \<Rightarrow> Inl err
      | Inr qid \<Rightarrow>
          (case filter_question_id rest cid of
             Inl err \<Rightarrow> Inl err
           | Inr r \<Rightarrow> Inr (if qid = cid then ques_list # r else r)))"

text \<open>\<open>v.append(x)\<close>: only a list has the method.\<close>

fun py_append :: "json \<Rightarrow> json \<Rightarrow> py_error + json" where
  "py_append (JList xs) x = Inr (JList (xs @ [x]))"
| "py_append _ x = Inl AttributeError"

definition on_enter_answer_input_logic :: "fsm \<Rightarrow> result" where
  "on_enter_answer_input_logic f =
     (let f1 = set_status WAIT_FOR_ME f;
          current_question_id1 = current_question_id (variables f1);
          question_list1 = question_list (variables f1)
      in raise_or f1 (py_iter question_list1) (\<lambda>qs.
         raise_or f1 (filter_question_id qs current_question_id1) (\<lambda>current_ques_param.
         raise_or f1 (seq_index current_ques_param 0) (\<lambda>p0.
         raise_or f1 (getitem_key p0 ''question'') (\<lambda>question.
         raise_or f1 (getitem_key p0 ''options'') (\<lambda>options.
         raise_or f1 (getitem_key p0 ''answer'') (\<lambda>answer.
           (let curret_user_input_param =
                  JObj [(''question_id'', current_question_id1), (''question'', question),
                        (''options'', options), (''answer'', answer),
                        (''selected_option'', json_of_str (current_input f1))];
                updated_user_input = user_input_param (variables f1)
            in raise_or f1 (py_append updated_user_input curret_user_input_param) (\<lambda>updated.
                 (let f2 = f1\<lparr>variables := (variables f1)\<lparr>user_input_param := updated\<rparr>\<rparr>
                  in Inr (set_status MOVE_FORWARD f2)))))))))))"

definition on_enter_waiting_message :: "fsm \<Rightarrow> fsm" where
  "on_enter_waiting_message f =
     (let f1 = set_status WAIT_FOR_ME f;
          message = [Lit ''Please wait while we are calculating your score''];
          f2 = send_message (TextMessage message) f1
      in set_status MOVE_FORWARD f2)"

definition on_enter_calculate_score :: "env \<Rightarrow> fsm \<Rightarrow> result" where
  "on_enter_calculate_score e f =
     (let f1 = set_status WAIT_FOR_ME f;
          v = variables f1
      in raise_or f1 (parse_user_input e
                        (Score_task (grade v) (subject v) (question_list v) (user_input_param v)))
           (\<lambda>result.
         raise_or f1 (getitem_key result ''result'') (\<lambda>message.
           (let f2 = send_message (TextMessage [Val message]) f1
            in Inr (set_status MOVE_FORWARD f2)))))"

definition on_enter_thankyou_message :: "fsm \<Rightarrow> fsm" where
  "on_enter_thankyou_message f =
     (let f1 = set_status WAIT_FOR_ME f;
          f2 = f1\<lparr>variables := (variables f1)\<lparr>question_count := 0\<rparr>\<rparr>;
          f3 = f2\<lparr>variables := (variables f2)\<lparr>user_input_param := JList []\<rparr>\<rparr>;
          f4 = f3\<lparr>variables := (variables f3)\<lparr>question_list := JNull\<rparr>\<rparr>;
          f5 = f4\<lparr>variables := (variables f4)\<lparr>current_question_id := JNull\<rparr>\<rparr>;
          message = [Lit ''Thank you for attempting MX Quiz!''];
          f6 = send_message (TextMessage message) f5
      in set_status MOVE_FORWARD f6)"

text \<open>The loop of \<open>on_enter_resources_tips\<close>, built like the one for competencies.\<close>

fun send_resources :: "piece list \<Rightarrow> json list \<Rightarrow> fsm \<Rightarrow> result" where
  "send_resources message [] f = Inr f"
| "send_resources message (resource # rest) f =
     raise_or f (getitem_key resource ''title'') (\<lambda>title.
     raise_or f (getitem_key resource ''author'') (\<lambda>author.
     raise_or f (getitem_key resource ''description'') (\<lambda>description.
     raise_or f (getitem_key resource ''link'') (\<lambda>link.
       (let message1 = message @ [Lit ''**Title:** '', Val title,
                         Lit (CHR 0x0A # ''**Author:** ''), Val author,
                         Lit (CHR 0x0A # ''**Description:** ''), Val description,
                         Lit (CHR 0x0A # ''**Link:** ''), Val link];
            f1 = send_message (TextMessage message1) f
        in send_resources [] rest f1)))))"

definition on_enter_resources_tips :: "env \<Rightarrow> fsm \<Rightarrow> result" where
  "on_enter_resources_tips e f =
     (let f1 = set_status WAIT_FOR_ME f;
          message = [Lit (''Here are some resources and tips for you.'' @ [CHR 0x0A])];
          grade1 = grade (variables f1);
          subject1 = subject (variables f1)
      in raise_or f1 (parse_user_input e (Resources_task grade1 subject1)) (\<lambda>result.
         raise_or f1 (getitem_key result ''resources'') (\<lambda>resources.
         raise_or f1 (py_iter resources) (\<lambda>items.
           (case send_resources message items f1 of
              Inl err \<Rightarrow> Inl err
            | Inr f2 \<Rightarrow> Inr (set_status MOVE_FORWARD f2))))))"

definition on_enter_help_support :: "fsm \<Rightarrow> fsm" where
  "on_enter_help_support f =
     (let f1 = set_status WAIT_FOR_ME f;
          message = [Lit ''How can we assist you today? Please describe your issue.''];
          f2 = send_message (TextMessage message) f1
      in set_status WAIT_FOR_USER_INPUT f2)"

definition on_enter_end :: "fsm \<Rightarrow> fsm" where
  "on_enter_end f =
     (let f1 = set_status WAIT_FOR_ME f;
          message = [Lit ''Thank you for using the MX Teacher Competency Tool. Have a great day!''];
          f2 = send_message (TextMessage message) f1
      in set_status MOVE_FORWARD f2)"

section \<open>The transition table\<close>

record transition =
  source :: state
  dest :: state
  trigger :: string
  conditions :: "(teacher_competency_variables \<Rightarrow> bool) option"

definition transitions :: "transition list" where
  "transitions =
    [\<lparr>source = Zero, dest = Language_selection, trigger = ''next'', conditions = None\<rparr>,
     \<lparr>source = Language_selection, dest = Welcome_message_display, trigger = ''next'', conditions = None\<rparr>,
     \<lparr>source = Welcome_message_display, dest = Collect_name, trigger = ''next'', conditions = None\<rparr>,
     \<lparr>source = Collect_name, dest = Collect_name_logic, trigger = ''next'', conditions = None\<rparr>,
     \<lparr>source = Collect_name_logic, dest = Collect_subject, trigger = ''next'', conditions = None\<rparr>,
     \<lparr>source = Collect_subject, dest = Collect_subject_logic, trigger = ''next'', conditions = None\<rparr>,
     \<lparr>source = Collect_subject_logic, dest = Collect_grade, trigger = ''next'', conditions = None\<rparr>,
     \<lparr>source = Collect_grade, dest = Collect_grade_logic, trigger = ''next'', conditions = None\<rparr>,
     \<lparr>source = Collect_grade_logic, dest = Confirmation, trigger = ''next'', conditions = None\<rparr>,
     \<lparr>source = Confirmation, dest = Home_screen, trigger = ''next'', conditions = None\<rparr>,
     \<lparr>source = Home_screen, dest = Home_screen_logic, trigger = ''next'', conditions = None\<rparr>,
     \<lparr>source = Home_screen_logic, dest = Learn_competencies, trigger = ''next'',
        conditions = Some is_learn_competencies_selected\<rparr>,
     \<lparr>source = Home_screen_logic, dest = Assessment, trigger = ''next'',
        conditions = Some is_assessment_selected\<rparr>,
     \<lparr>source = Home_screen_logic, dest = Resources_tips, trigger = ''next'',
        conditions = Some is_resources_tips_selected\<rparr>,
     \<lparr>source = Home_screen_logic, dest = Help_support, trigger = ''next'',
        conditions = Some is_help_support_selected\<rparr>,
     \<lparr>source = Assessment, dest = Show_question, trigger = ''next'', conditions = None\<rparr>,
     \<lparr>source = Show_question, dest = Question_answer_input, trigger = ''next'', conditions = None\<rparr>,
     \<lparr>source = Question_answer_input, dest = Answer_input_logic, trigger = ''next'', conditions = None\<rparr>,
     \<lparr>source = Answer_input_logic, dest = Show_question, trigger = ''next'',
        conditions = Some is_send_another_question\<rparr>,
     \<lparr>source = Answer_input_logic, dest = Waiting_message, trigger = ''next'', conditions = None\<rparr>,
     \<lparr>source = Waiting_message, dest = Calculate_score, trigger = ''next'', conditions = None\<rparr>,
     \<lparr>source = Calculate_score, dest = Thankyou_message, trigger = ''next'', conditions = None\<rparr>,
     \<lparr>source = Learn_competencies, dest = Home_screen, trigger = ''next'', conditions = None\<rparr>,
     \<lparr>source = Thankyou_message, dest = Home_screen, trigger = ''next'', conditions = None\<rparr>]"

section \<open>The engine\<close>

text \<open>
  The engine is the base class \<open>AbstractFSM\<close>, which \<open>teacher_bot_new.py\<close> imports and
  which is not among the sources: edge selection, the dispatch of a state to its handler
  and the run loop are written here from the spec's sections 4.1 to 4.3.
\<close>

text \<open>
  Modelled from the spec: the first step of edge selection (section 4.2), the edges of the
  table with the given source and trigger, in the order of the table.
\<close>

definition edges_from :: "state \<Rightarrow> string \<Rightarrow> transition list" where
  "edges_from s trig = filter (\<lambda>t. source t = s \<and> trigger t = trig) transitions"

text \<open>
  Modelled from the spec: the guard of an edge evaluated on the variable store (section
  4.2); an edge without a guard is taken unconditionally.
\<close>

definition guard_holds :: "teacher_competency_variables \<Rightarrow> transition \<Rightarrow> bool" where
  "guard_holds v t = (case conditions t of None \<Rightarrow> True | Some g \<Rightarrow> g v)"

text \<open>
  Modelled from the spec: \<open>next(state, triggerName)\<close> of section 4.2, the destination of the
  first edge, in the order of the table, whose guard holds; nothing when zero edges match.
\<close>

definition next_state :: "teacher_competency_variables \<Rightarrow> state \<Rightarrow> string \<Rightarrow> state option" where
  "next_state v s trig =
     (case filter (guard_holds v) (edges_from s trig) of
        [] \<Rightarrow> None
      | t # _ \<Rightarrow> Some (dest t))"

text \<open>
  Modelled from the spec: dispatch by name (section 4.3). Every state but \<open>zero\<close> has an
  \<open>on_enter_\<close> method in the file; entering a state without one is the spec's fatal
  configuration error.
\<close>

fun on_enter :: "state \<Rightarrow> env \<Rightarrow> fsm \<Rightarrow> result" where
  "on_enter Zero e f = Inl (MachineError, f)"
| "on_enter Language_selection e f = on_enter_language_selection e f"
| "on_enter Welcome_message_display e f = Inr (on_enter_welcome_message_display f)"
| "on_enter Collect_name e f = Inr (on_enter_collect_name f)"
| "on_enter Collect_name_logic e f = Inr (on_enter_collect_name_logic f)"
| "on_enter Collect_subject e f = Inr (on_enter_collect_subject f)"
| "on_enter Collect_subject_logic e f = Inr (on_enter_collect_subject_logic f)"
| "on_enter Collect_grade e f = Inr (on_enter_collect_grade f)"
| "on_enter Collect_grade_logic e f = Inr (on_enter_collect_grade_logic f)"
| "on_enter Confirmation e f = Inr (on_enter_confirmation f)"
| "on_enter Show_question e f = on_enter_show_question e f"
| "on_enter Question_answer_input e f = Inr (on_enter_question_answer_input f)"
| "on_enter Answer_input_logic e f = on_enter_answer_input_logic f"
| "on_enter Waiting_message e f = Inr (on_enter_waiting_message f)"
| "on_enter Calculate_score e f = on_enter_calculate_score e f"
| "on_enter Thankyou_message e f = Inr (on_enter_thankyou_message f)"
| "on_enter Home_screen e f = Inr (on_enter_home_screen f)"
| "on_enter Home_screen_logic e f = on_enter_home_screen_logic e f"
| "on_enter Learn_competencies e f = on_enter_learn_competencies e f"
| "on_enter Assessment e f = Inr (on_enter_assessment f)"
| "on_enter Resources_tips e f = on_enter_resources_tips e f"
| "on_enter Help_support e f = Inr (on_enter_help_support f)"
| "on_enter End e f = Inr (on_enter_end f)"

text \<open>
  The measure of the termination proof of the run loop: every transition out of a state
  whose handler can leave \<open>MOVE_FORWARD\<close> goes to a state of smaller rank, so a chain of
  \<open>MOVE_FORWARD\<close> states ends.
\<close>

definition rank :: "state \<Rightarrow> nat" where
  "rank st =
     (case st of
        Answer_input_logic \<Rightarrow> 4
      | Waiting_message \<Rightarrow> 3
      | Home_screen_logic \<Rightarrow> 3
      | Zero \<Rightarrow> 3
      | Calculate_score \<Rightarrow> 2
      | Assessment \<Rightarrow> 2
      | Language_selection \<Rightarrow> 2
      | Collect_grade_logic \<Rightarrow> 2
      | Collect_name \<Rightarrow> 0
      | Collect_subject \<Rightarrow> 0
      | Collect_grade \<Rightarrow> 0
      | Home_screen \<Rightarrow> 0
      | Question_answer_input \<Rightarrow> 0
      | Help_support \<Rightarrow> 0
      | End \<Rightarrow> 0
      | _ \<Rightarrow> 1)"

text \<open>
  Modelled from the spec: entering a state (section 4.1, steps 2 and 4). The state becomes
  the current state and its handler is invoked; \<open>trace\<close> logs the entry.
\<close>

definition enter :: "env \<Rightarrow> state \<Rightarrow> fsm \<Rightarrow> result" where
  "enter e st f = on_enter st e (f\<lparr>state := st, trace := trace f @ [st]\<rparr>)"

text \<open>
  Modelled from the spec: the run loop (section 4.1). A state is entered and the status its
  handler leaves decides: on \<open>MOVE_FORWARD\<close> the loop takes the \<open>next\<close> transition and
  enters its destination without returning to the caller; on any other status it returns.
  A state with no outgoing \<open>next\<close> transition ends the loop; outgoing transitions none of
  whose guards holds are the configuration error; an exception of a handler is not caught.
\<close>

function run :: "env \<Rightarrow> state \<Rightarrow> fsm \<Rightarrow> result" where
  "run e st f =
     (case enter e st f of
        Inl err \<Rightarrow> Inl err
      | Inr f1 \<Rightarrow>
          if status f1 = MOVE_FORWARD
          then (if edges_from st ''next'' = [] then Inr f1
                else case next_state (variables f1) st ''next'' of
                       None \<Rightarrow> Inl (MachineError, f1)
                     | Some st1 \<Rightarrow> run e st1 f1)
          else Inr f1)"
  by pat_completeness auto
termination
proof (relation "measure (\<lambda>(e, st, f). rank st)")
  show "wf (measure (\<lambda>(e, st, f). rank st))"
    by simp
next
  fix e :: env and st :: state and f f1 :: fsm and st1 :: state
  assume "enter e st f = Inr f1"
    and "status f1 = MOVE_FORWARD"
    and "next_state (variables f1) st ''next'' = Some st1"
  then have "rank st1 < rank st"
    by (cases st)
      (auto simp: enter_def next_state_def edges_from_def transitions_def guard_holds_def rank_def
        on_enter_collect_name_def on_enter_collect_subject_def on_enter_collect_grade_def
        on_enter_home_screen_def on_enter_question_answer_input_def on_enter_help_support_def
        set_status_def send_message_def Let_def split: if_splits)
  then show "((e, st1, f1), (e, st, f)) \<in> measure (\<lambda>(e, st, f). rank st)"
    by simp
qed

text \<open>
  Modelled from the spec: \<open>advance(session, externalInput)\<close>. The input, when there is one,
  is written to the input buffer. The handlers of this file fix how a session at rest goes
  on: a state that asks (\<open>collect_name\<close>) never reads the input and the state after it
  (\<open>collect_name_logic\<close>) does, and the spec's scenario for \<open>collect_name\<close> stores the
  name from a session that rests there; so the call takes the \<open>next\<close> transition of the
  state the session rests in and runs the loop from its destination. (Section 4.1 words the
  resumption as invoking the handler of the resting state again; with the handlers of this
  file that would repeat the question and never read the answer.) The status of a session
  at rest is not read.
\<close>

definition advance :: "env \<Rightarrow> fsm \<Rightarrow> string option \<Rightarrow> result" where
  "advance e f external_input =
     (let f1 = (case external_input of None \<Rightarrow> f | Some x \<Rightarrow> f\<lparr>current_input := Some x\<rparr>)
      in if edges_from (state f1) ''next'' = [] then Inr f1
         else case next_state (variables f1) (state f1) ''next'' of
                None \<Rightarrow> Inl (MachineError, f1)
              | Some st \<Rightarrow> run e st f1)"

text \<open>
  The session \<open>__init__\<close> builds when the credentials are complete (it raises \<open>ValueError\<close>
  otherwise): the variables at their defaults, no input, the machine at \<open>zero\<close>, the first
  of the states.
\<close>

definition new_fsm :: fsm where
  "new_fsm =
     \<lparr>state = Zero, status = WAIT_FOR_ME, variables = default_variables,
      current_input = None, outbox = [], status_writes = [], trace = []\<rparr>"

text \<open>A caller that hands the user's messages to \<open>advance\<close> one by one, until one call raises.\<close>

fun advance_all :: "env \<Rightarrow> fsm \<Rightarrow> string list \<Rightarrow> result" where
  "advance_all e f [] = Inr f"
| "advance_all e f (x # xs) =
     (case advance e f (Some x) of Inl err \<Rightarrow> Inl err | Inr f1 \<Rightarrow> advance_all e f1 xs)"

text \<open>
  The status a handler leaves when it returns, read off the last assignment of each
  \<open>on_enter_\<close> method (the handler of \<open>language_selection\<close> is the base class's).
\<close>

definition final_status :: "state \<Rightarrow> status" where
  "final_status st =
     (if st = Collect_name \<or> st = Collect_subject \<or> st = Collect_grade \<or> st = Home_screen
         \<or> st = Question_answer_input \<or> st = Help_support
      then WAIT_FOR_USER_INPUT else MOVE_FORWARD)"

section \<open>Quiz questions and sessions inside the quiz\<close>



section \<open>Sessions the flow can reach\<close>

text \<open>
  What is taken for granted about the base class's \<open>_on_enter_select_language\<close>, which is
  not among the sources: when it returns, it has left the current state and the variable
  store as they were.
\<close>

definition language_frame :: "env \<Rightarrow> bool" where
  "language_frame e =
     (\<forall>f f1. select_language e f = Inr f1 \<longrightarrow> state f1 = state f \<and> variables f1 = variables f)"

text \<open>
  Modelled from the spec: the sessions the run loop passes through between two handler
  invocations, starting from the session \<open>__init__\<close> builds. A session receives an input,
  or the \<open>next\<close> transition of its state is taken and the handler of the destination
  returns normally (a handler that raises ends the run). The collaborators may answer
  differently at every step, so the predicate is not executable.
\<close>

inductive reachable :: "fsm \<Rightarrow> bool" where
  fresh: "reachable new_fsm"
| input: "reachable f \<Longrightarrow> reachable (f\<lparr>current_input := x\<rparr>)"
| entered: "reachable f \<Longrightarrow> language_frame e \<Longrightarrow>
            next_state (variables f) (state f) ''next'' = Some st \<Longrightarrow>
            enter e st f = Inr f1 \<Longrightarrow> reachable f1"

section \<open>Sample inputs\<close>

text \<open>
  Concrete inputs for the scenarios evaluated below: two selection payloads, a well-formed
  quiz question, what \<open>json.loads\<close> returns on the texts used (it rejects every other text
  here), and collaborators that answer every request with a given response.
\<close>

definition assessment_payload :: string where
  \<open>assessment_payload = ''[{"option_id":"assessment"}]''\<close>

definition foo_payload :: string where
  \<open>foo_payload = ''[{"option_id":"foo"}]''\<close>

definition sample_question :: "int \<Rightarrow> json" where
  "sample_question i =
     JObj [(''question_id'', JInt i), (''question'', JStr ''Why?''),
           (''options'', JObj [(''A'', JStr ''yes''), (''B'', JStr ''no'')]),
           (''answer'', JStr ''A'')]"

definition sample_loads :: "string \<Rightarrow> py_error + json" where
  "sample_loads s =
     (if s = assessment_payload then Inr (JList [JObj [(''option_id'', JStr ''assessment'')]])
      else if s = foo_payload then Inr (JList [JObj [(''option_id'', JStr ''foo'')]])
      else if s = ''[]'' then Inr (JList [])
      else Inl JSONDecodeError)"

definition sample_env :: "json \<Rightarrow> env" where
  "sample_env response =
     \<lparr>parse_user_input = (\<lambda>request. Inr response), loads = sample_loads,
      select_language = (\<lambda>f. Inr (set_status WAIT_FOR_CALLBACK f))\<rparr>"

text \<open>
  A session that has gone through the onboarding and rests at \<open>home_screen\<close>; the same
  session after the selection of the assessment has entered \<open>home_screen_logic\<close>; and
  after it has entered \<open>assessment\<close>. Each is the session the step leaves, whether the
  step returns or raises.
\<close>

definition session_at_home_screen :: fsm where
  "session_at_home_screen =
     (case advance_all (sample_env JNull) new_fsm [''hi'', ''en'', ''Asha'', ''Maths'', ''5''] of
        Inr f \<Rightarrow> f
      | Inl (err, f) \<Rightarrow> f)"

definition session_at_home_screen_logic :: fsm where
  "session_at_home_screen_logic =
     (case enter (sample_env JNull) Home_screen_logic
             (session_at_home_screen\<lparr>current_input := Some assessment_payload\<rparr>) of
        Inr f \<Rightarrow> f
      | Inl (err, f) \<Rightarrow> f)"

definition session_at_assessment :: fsm where
  "session_at_assessment =
     (case enter (sample_env JNull) Assessment session_at_home_screen_logic of
        Inr f \<Rightarrow> f
      | Inl (err, f) \<Rightarrow> f)"

text \<open>
  The session \<open>session_at_home_screen\<close> when the provider answers the quiz request with
  \<open>{"result": null}\<close> and the caller goes on handing inputs to the session after each of
  the two exceptions this causes (in \<open>show_question\<close>, then in \<open>answer_input_logic\<close>).
\<close>

definition session_resumed_after_errors :: fsm where
  "session_resumed_after_errors =
     (let e = sample_env (JObj [(''result'', JNull)]);
          left_by = (\<lambda>r. case r of Inr f \<Rightarrow> f | Inl (err, f) \<Rightarrow> f);
          f1 = left_by (advance e session_at_home_screen (Some assessment_payload));
          f2 = left_by (advance e f1 (Some ''A''));
          f3 = left_by (advance e f2 (Some ''A''))
      in f3)"

section \<open>The transition taken from each state\<close>

lemma next_state_simps:
  "next_state v Zero ''next'' = Some Language_selection"
  "next_state v Language_selection ''next'' = Some Welcome_message_display"
  "next_state v Welcome_message_display ''next'' = Some Collect_name"
  "next_state v Collect_name ''next'' = Some Collect_name_logic"
  "next_state v Collect_name_logic ''next'' = Some Collect_subject"
  "next_state v Collect_subject ''next'' = Some Collect_subject_logic"
  "next_state v Collect_subject_logic ''next'' = Some Collect_grade"
  "next_state v Collect_grade ''next'' = Some Collect_grade_logic"
  "next_state v Collect_grade_logic ''next'' = Some Confirmation"
  "next_state v Confirmation ''next'' = Some Home_screen"
  "next_state v Home_screen ''next'' = Some Home_screen_logic"
  "next_state v Assessment ''next'' = Some Show_question"
  "next_state v Show_question ''next'' = Some Question_answer_input"
  "next_state v Question_answer_input ''next'' = Some Answer_input_logic"
  "next_state v Answer_input_logic ''next'' =
     Some (if is_send_another_question v then Show_question else Waiting_message)"
  "next_state v Waiting_message ''next'' = Some Calculate_score"
  "next_state v Calculate_score ''next'' = Some Thankyou_message"
  "next_state v Learn_competencies ''next'' = Some Home_screen"
  "next_state v Thankyou_message ''next'' = Some Home_screen"
  "next_state v Resources_tips ''next'' = None"
  "next_state v Help_support ''next'' = None"
  "next_state v End ''next'' = None"
  by (simp_all add: next_state_def edges_from_def transitions_def guard_holds_def)

lemma next_state_home_screen_logic:
  "next_state v Home_screen_logic ''next'' =
     (if is_learn_competencies_selected v then Some Learn_competencies
      else if is_assessment_selected v then Some Assessment
      else if is_resources_tips_selected v then Some Resources_tips
      else if is_help_support_selected v then Some Help_support
      else None)"
  by (simp add: next_state_def edges_from_def transitions_def guard_holds_def)

lemma edges_from_empty_iff:
  "(edges_from st ''next'' = []) = (st = Resources_tips \<or> st = Help_support \<or> st = End)"
  by (cases st) (simp_all add: edges_from_def transitions_def)

lemmas guard_defs = is_learn_competencies_selected_def is_assessment_selected_def
  is_resources_tips_selected_def is_help_support_selected_def

section \<open>What the message loops leave untouched\<close>

lemma send_competencies_frame:
  "send_competencies message xs f = Inr f1 \<Longrightarrow> \<exists>ms. f1 = f\<lparr>outbox := outbox f @ ms\<rparr>"
proof (induction xs arbitrary: message f)
  case Nil
  then show ?case by (auto intro: exI[of _ "[]"])
next
  case (Cons x xs)
  from Cons.prems obtain m where "send_competencies [] xs (send_message m f) = Inr f1"
    by (auto simp: raise_or_def Let_def split: sum.splits)
  from Cons.IH[OF this] obtain ms
    where "f1 = (send_message m f)\<lparr>outbox := outbox (send_message m f) @ ms\<rparr>"
    by blast
  then have "f1 = f\<lparr>outbox := outbox f @ (m # ms)\<rparr>"
    by (simp add: send_message_def)
  then show ?case by blast
qed

lemma send_resources_frame:
  "send_resources message xs f = Inr f1 \<Longrightarrow> \<exists>ms. f1 = f\<lparr>outbox := outbox f @ ms\<rparr>"
proof (induction xs arbitrary: message f)
  case Nil
  then show ?case by (auto intro: exI[of _ "[]"])
next
  case (Cons x xs)
  from Cons.prems obtain m where "send_resources [] xs (send_message m f) = Inr f1"
    by (auto simp: raise_or_def Let_def split: sum.splits)
  from Cons.IH[OF this] obtain ms
    where "f1 = (send_message m f)\<lparr>outbox := outbox (send_message m f) @ ms\<rparr>"
    by blast
  then have "f1 = f\<lparr>outbox := outbox f @ (m # ms)\<rparr>"
    by (simp add: send_message_def)
  then show ?case by blast
qed

section \<open>The quiz variables are reset on entry to the quiz\<close>

text \<open>
  C9. Entering \<open>assessment\<close> sets \<open>question_count\<close> to 0, \<open>user_input_param\<close> to the empty
  list, \<open>question_list\<close> and \<open>current_question_id\<close> to \<open>None\<close>, and leaves every other field
  of the variable store (name, language, subject, grade, competency_domain, quiz_score,
  home_screen_option, total_num_question) as it was; entering \<open>thankyou_message\<close> does the
  same. The handlers cannot raise.
\<close>

theorem assessment_resets_quiz_variables:
  "variables (on_enter_assessment f) =
     (variables f)\<lparr>question_count := 0, user_input_param := JList [], question_list := JNull,
                   current_question_id := JNull\<rparr>
   \<and> variables (on_enter_thankyou_message f) =
     (variables f)\<lparr>question_count := 0, user_input_param := JList [], question_list := JNull,
                   current_question_id := JNull\<rparr>"
  by (simp add: on_enter_assessment_def on_enter_thankyou_message_def set_status_def
      send_message_def Let_def)

section \<open>The selection of the assessment branch\<close>

text \<open>
  C2. At \<open>home_screen_logic\<close> with the current input \<open>[{"option_id":"assessment"}]\<close>, which
  \<open>json.loads\<close> decodes to a list of one dict, the handler stores \<open>"assessment"\<close> in
  \<open>home_screen_option\<close> and leaves \<open>MOVE_FORWARD\<close>; on the store it leaves, the guard of the
  edge to \<open>assessment\<close> holds, the guards of the edges to \<open>learn_competencies\<close>,
  \<open>resources_tips\<close> and \<open>help_support\<close> do not, and \<open>next\<close> leads to \<open>assessment\<close>.
\<close>

theorem home_screen_logic_selects_assessment:
  assumes "current_input f = Some assessment_payload"
    and "loads e assessment_payload = Inr (JList [JObj [(''option_id'', JStr ''assessment'')]])"
  shows "on_enter_home_screen_logic e f =
           Inr (set_status MOVE_FORWARD
                  ((set_status WAIT_FOR_ME f)
                     \<lparr>variables := (variables f)\<lparr>home_screen_option := JStr ''assessment''\<rparr>\<rparr>))
         \<and> is_assessment_selected ((variables f)\<lparr>home_screen_option := JStr ''assessment''\<rparr>)
         \<and> \<not> is_learn_competencies_selected
               ((variables f)\<lparr>home_screen_option := JStr ''assessment''\<rparr>)
         \<and> \<not> is_resources_tips_selected ((variables f)\<lparr>home_screen_option := JStr ''assessment''\<rparr>)
         \<and> \<not> is_help_support_selected ((variables f)\<lparr>home_screen_option := JStr ''assessment''\<rparr>)
         \<and> next_state ((variables f)\<lparr>home_screen_option := JStr ''assessment''\<rparr>)
               Home_screen_logic ''next'' = Some Assessment"
  using assms
  by (simp add: on_enter_home_screen_logic_def raise_or_def set_status_def Let_def seq_index_def
      next_state_home_screen_logic guard_defs)

theorem home_screen_logic_selects_assessment_witness:
  "on_enter_home_screen_logic (sample_env JNull)
       (new_fsm\<lparr>current_input := Some assessment_payload\<rparr>) =
     Inr (new_fsm\<lparr>status := MOVE_FORWARD,
                  variables := default_variables\<lparr>home_screen_option := JStr ''assessment''\<rparr>,
                  current_input := Some assessment_payload,
                  status_writes := [WAIT_FOR_ME, MOVE_FORWARD]\<rparr>)
   \<and> next_state (default_variables\<lparr>home_screen_option := JStr ''assessment''\<rparr>)
         Home_screen_logic ''next'' = Some Assessment"
  using home_screen_logic_selects_assessment
    [of "new_fsm\<lparr>current_input := Some assessment_payload\<rparr>" "sample_env JNull"]
  by (simp add: sample_env_def sample_loads_def new_fsm_def set_status_def)

section \<open>The scenario at \<open>collect_name\<close>\<close>

text \<open>
  C5. A session that rests at \<open>collect_name\<close> is given the input \<open>"Asha"\<close>: one call of
  \<open>advance\<close> enters \<open>collect_name_logic\<close>, which stores \<open>name = "Asha"\<close> and leaves
  \<open>MOVE_FORWARD\<close>, then enters \<open>collect_subject\<close>, which emits "What subject do you teach?"
  and leaves \<open>WAIT_FOR_USER_INPUT\<close>, and only then returns. Nothing else of the session
  changes.
\<close>

theorem collect_name_scenario:
  assumes "state f = Collect_name"
  shows "advance e f (Some ''Asha'') =
           Inr (f\<lparr>state := Collect_subject, status := WAIT_FOR_USER_INPUT,
                  variables := (variables f)\<lparr>name := Some ''Asha''\<rparr>,
                  current_input := Some ''Asha'',
                  outbox := outbox f @ [TextMessage [Lit ''What subject do you teach?'']],
                  status_writes := status_writes f @
                    [WAIT_FOR_ME, MOVE_FORWARD, WAIT_FOR_ME, WAIT_FOR_USER_INPUT],
                  trace := trace f @ [Collect_name_logic, Collect_subject]\<rparr>)"
  using assms
  by (simp add: advance_def edges_from_empty_iff next_state_simps run.simps enter_def
      on_enter_collect_name_logic_def on_enter_collect_subject_def set_status_def
      send_message_def Let_def)

theorem collect_name_scenario_witness:
  "advance (sample_env JNull) (new_fsm\<lparr>state := Collect_name\<rparr>) (Some ''Asha'') =
     Inr (new_fsm\<lparr>state := Collect_subject, status := WAIT_FOR_USER_INPUT,
                  variables := default_variables\<lparr>name := Some ''Asha''\<rparr>,
                  current_input := Some ''Asha'',
                  outbox := [TextMessage [Lit ''What subject do you teach?'']],
                  status_writes := [WAIT_FOR_ME, MOVE_FORWARD, WAIT_FOR_ME, WAIT_FOR_USER_INPUT],
                  trace := [Collect_name_logic, Collect_subject]\<rparr>)"
  using collect_name_scenario [of "new_fsm\<lparr>state := Collect_name\<rparr>" "sample_env JNull"]
  by (simp add: new_fsm_def)

section \<open>The guards of \<open>home_screen_logic\<close>\<close>

text \<open>
  On the store the session starts with (\<open>home_screen_option\<close> is \<open>None\<close>), and on a store
  whose \<open>home_screen_option\<close> is \<open>"foo"\<close> (what the handler stores for the payload
  \<open>[{"option_id":"foo"}]\<close>), none of the four guards holds and no edge is selected.
\<close>

theorem home_screen_logic_guards_counterexample:
  "filter (guard_holds default_variables) (edges_from Home_screen_logic ''next'') = []
   \<and> next_state default_variables Home_screen_logic ''next'' = None
   \<and> filter (guard_holds (default_variables\<lparr>home_screen_option := JStr ''foo''\<rparr>))
         (edges_from Home_screen_logic ''next'') = []
   \<and> next_state (default_variables\<lparr>home_screen_option := JStr ''foo''\<rparr>)
         Home_screen_logic ''next'' = None"
  by (simp add: next_state_def edges_from_def transitions_def guard_holds_def guard_defs
      default_variables_def)

text \<open>
  C4, as the code has it. The four guards are functions of the variable store that read
  \<open>home_screen_option\<close> only: two stores that agree on it give the same guard values and
  the same selected edge. For every store at most one guard holds; exactly one holds, and
  then its edge is the one selected, when \<open>home_screen_option\<close> is one of
  \<open>"competencies"\<close>, \<open>"assessment"\<close>, \<open>"resources"\<close>, \<open>"help"\<close>; for any other value no
  guard holds and no edge is selected.
\<close>

theorem home_screen_logic_guards:
  "length (filter (guard_holds v) (edges_from Home_screen_logic ''next'')) \<le> 1
   \<and> (length (filter (guard_holds v) (edges_from Home_screen_logic ''next'')) = 1)
       = (home_screen_option v = JStr ''competencies'' \<or> home_screen_option v = JStr ''assessment''
          \<or> home_screen_option v = JStr ''resources'' \<or> home_screen_option v = JStr ''help'')
   \<and> next_state v Home_screen_logic ''next'' =
        (if home_screen_option v = JStr ''competencies'' then Some Learn_competencies
         else if home_screen_option v = JStr ''assessment'' then Some Assessment
         else if home_screen_option v = JStr ''resources'' then Some Resources_tips
         else if home_screen_option v = JStr ''help'' then Some Help_support
         else None)
   \<and> (home_screen_option w = home_screen_option v \<longrightarrow>
        is_learn_competencies_selected w = is_learn_competencies_selected v
        \<and> is_assessment_selected w = is_assessment_selected v
        \<and> is_resources_tips_selected w = is_resources_tips_selected v
        \<and> is_help_support_selected w = is_help_support_selected v
        \<and> next_state w Home_screen_logic ''next'' = next_state v Home_screen_logic ''next'')"
  by (simp add: next_state_def edges_from_def transitions_def guard_holds_def guard_defs)

theorem home_screen_logic_guards_witness:
  "home_screen_option (default_variables\<lparr>home_screen_option := JStr ''help'', question_count := 3\<rparr>)
     = home_screen_option (default_variables\<lparr>home_screen_option := JStr ''help''\<rparr>)
   \<and> is_help_support_selected (default_variables\<lparr>home_screen_option := JStr ''help'', question_count := 3\<rparr>)
   \<and> next_state (default_variables\<lparr>home_screen_option := JStr ''help'', question_count := 3\<rparr>)
         Home_screen_logic ''next'' = Some Help_support
   \<and> length (filter (guard_holds (default_variables\<lparr>home_screen_option := JStr ''help''\<rparr>))
         (edges_from Home_screen_logic ''next'')) = 1"
  using home_screen_logic_guards
    [of "default_variables\<lparr>home_screen_option := JStr ''help''\<rparr>"
        "default_variables\<lparr>home_screen_option := JStr ''help'', question_count := 3\<rparr>"]
  by (simp add: guard_defs)

section \<open>The statuses a handler assigns\<close>

lemmas simple_handler_defs =
  on_enter_welcome_message_display_def on_enter_collect_name_def on_enter_collect_name_logic_def
  on_enter_collect_subject_def on_enter_collect_subject_logic_def on_enter_collect_grade_def
  on_enter_collect_grade_logic_def on_enter_confirmation_def on_enter_home_screen_def
  on_enter_assessment_def on_enter_question_answer_input_def on_enter_waiting_message_def
  on_enter_thankyou_message_def on_enter_help_support_def on_enter_end_def

lemma home_screen_logic_writes:
  "on_enter_home_screen_logic e f = Inr f1 \<Longrightarrow>
     status f1 = MOVE_FORWARD \<and> status_writes f1 = status_writes f @ [WAIT_FOR_ME, MOVE_FORWARD]"
  by (auto simp: on_enter_home_screen_logic_def raise_or_def set_status_def Let_def
      split: sum.splits option.splits)

lemma answer_input_logic_writes:
  "on_enter_answer_input_logic f = Inr f1 \<Longrightarrow>
     status f1 = MOVE_FORWARD \<and> status_writes f1 = status_writes f @ [WAIT_FOR_ME, MOVE_FORWARD]"
  by (auto simp: on_enter_answer_input_logic_def raise_or_def set_status_def Let_def
      split: sum.splits)

lemma calculate_score_writes:
  "on_enter_calculate_score e f = Inr f1 \<Longrightarrow>
     status f1 = MOVE_FORWARD \<and> status_writes f1 = status_writes f @ [WAIT_FOR_ME, MOVE_FORWARD]"
  by (auto simp: on_enter_calculate_score_def raise_or_def set_status_def send_message_def Let_def
      split: sum.splits)

lemma learn_competencies_writes:
  assumes "on_enter_learn_competencies e f = Inr f1"
  shows "status f1 = MOVE_FORWARD \<and> status_writes f1 = status_writes f @ [WAIT_FOR_ME, MOVE_FORWARD]"
proof -
  from assms obtain m xs f2 where
    "send_competencies m xs (set_status WAIT_FOR_ME f) = Inr f2" and "f1 = set_status MOVE_FORWARD f2"
    by (auto simp: on_enter_learn_competencies_def raise_or_def Let_def split: sum.splits)
  with send_competencies_frame[of m xs "set_status WAIT_FOR_ME f" f2] show ?thesis
    by (auto simp: set_status_def)
qed

lemma resources_tips_writes:
  assumes "on_enter_resources_tips e f = Inr f1"
  shows "status f1 = MOVE_FORWARD \<and> status_writes f1 = status_writes f @ [WAIT_FOR_ME, MOVE_FORWARD]"
proof -
  from assms obtain m xs f2 where
    "send_resources m xs (set_status WAIT_FOR_ME f) = Inr f2" and "f1 = set_status MOVE_FORWARD f2"
    by (auto simp: on_enter_resources_tips_def raise_or_def Let_def split: sum.splits)
  with send_resources_frame[of m xs "set_status WAIT_FOR_ME f" f2] show ?thesis
    by (auto simp: set_status_def)
qed

lemma show_question_writes:
  "on_enter_show_question e f = Inr f1 \<Longrightarrow>
     status f1 = MOVE_FORWARD
     \<and> status_writes f1 = status_writes f @ [WAIT_FOR_CALLBACK, MOVE_FORWARD]"
  by (auto simp: on_enter_show_question_def get_question_from_openai_def raise_or_def
      set_status_def send_message_def Let_def split: sum.splits if_splits option.splits prod.splits)

lemma on_enter_writes:
  assumes "on_enter st e f = Inr f1" and "st \<noteq> Language_selection"
  shows "status f1 = final_status st
     \<and> status_writes f1 = status_writes f @
          [if st = Show_question then WAIT_FOR_CALLBACK else WAIT_FOR_ME, final_status st]"
proof (cases st)
  case Show_question
  with assms show_question_writes[of e f f1] show ?thesis by (simp add: final_status_def)
next
  case Answer_input_logic
  with assms answer_input_logic_writes[of f f1] show ?thesis by (simp add: final_status_def)
next
  case Calculate_score
  with assms calculate_score_writes[of e f f1] show ?thesis by (simp add: final_status_def)
next
  case Home_screen_logic
  with assms home_screen_logic_writes[of e f f1] show ?thesis by (simp add: final_status_def)
next
  case Learn_competencies
  with assms learn_competencies_writes[of e f f1] show ?thesis by (simp add: final_status_def)
next
  case Resources_tips
  with assms resources_tips_writes[of e f f1] show ?thesis by (simp add: final_status_def)
qed (use assms in \<open>auto simp: final_status_def simple_handler_defs set_status_def send_message_def Let_def\<close>)

text \<open>
  C3. Every handler of the file that returns normally returns with a terminal status
  (\<open>MOVE_FORWARD\<close> or \<open>WAIT_FOR_USER_INPUT\<close>), and every handler but one assigns
  \<open>WAIT_FOR_ME\<close> first and one terminal status last (\<open>on_enter_writes\<close>).
  \<open>on_enter_show_question\<close> is the exception: it assigns the terminal status
  \<open>WAIT_FOR_CALLBACK\<close> first and \<open>MOVE_FORWARD\<close> last, two terminal statuses in one
  invocation. Here it is run on a fresh session with a provider that returns one well-formed
  question.
\<close>

theorem show_question_sets_two_terminal_statuses:
  "on_enter_show_question (sample_env (JObj [(''result'', JList [sample_question 1])])) new_fsm =
     Inr (new_fsm\<lparr>status := MOVE_FORWARD,
                  variables := default_variables\<lparr>question_list := JList [sample_question 1],
                                                  current_question_id := JInt 1\<rparr>,
                  outbox := [ListMessage [Lit ''Question 1: Why?''] [] [] ''Question Answer''
                               ''Question Answer''
                               [Option ''A'' (JStr ''yes''), Option ''B'' (JStr ''no'')]],
                  status_writes := [WAIT_FOR_CALLBACK, MOVE_FORWARD]\<rparr>)"
  by (simp add: on_enter_show_question_def get_question_from_openai_def raise_or_def
      set_status_def send_message_def Let_def sample_env_def sample_question_def new_fsm_def
      default_variables_def seq_index_def)

section \<open>States that advance and their outgoing transitions\<close>

text \<open>
  A session resting at \<open>home_screen\<close> receives the payload \<open>[{"option_id":"foo"}]\<close>: the
  handler of \<open>home_screen_logic\<close> returns with \<open>MOVE_FORWARD\<close>, the state has outgoing
  \<open>next\<close> transitions, and none of them can be selected.
\<close>

theorem zero_matching_edges_counterexample:
  "advance (sample_env JNull) (new_fsm\<lparr>state := Home_screen\<rparr>) (Some foo_payload) =
     Inl (MachineError,
          new_fsm\<lparr>state := Home_screen_logic, status := MOVE_FORWARD,
                  variables := default_variables\<lparr>home_screen_option := JStr ''foo''\<rparr>,
                  current_input := Some foo_payload,
                  status_writes := [WAIT_FOR_ME, MOVE_FORWARD],
                  trace := [Home_screen_logic]\<rparr>)
   \<and> edges_from Home_screen_logic ''next'' \<noteq> []"
  by (simp add: advance_def edges_from_empty_iff next_state_simps next_state_home_screen_logic
      guard_defs run.simps enter_def on_enter_home_screen_logic_def raise_or_def set_status_def
      Let_def sample_env_def sample_loads_def foo_payload_def assessment_payload_def new_fsm_def
      seq_index_def default_variables_def)

text \<open>
  C7, as the code has it. Every state other than \<open>resources_tips\<close> and \<open>end\<close> whose handler
  returns with \<open>MOVE_FORWARD\<close> has an outgoing \<open>next\<close> transition. For every such state
  but \<open>home_screen_logic\<close> one of them can be selected whatever the variable store holds;
  for \<open>home_screen_logic\<close> one can be selected exactly when \<open>home_screen_option\<close> is one
  of \<open>"competencies"\<close>, \<open>"assessment"\<close>, \<open>"resources"\<close>, \<open>"help"\<close>.
\<close>

theorem advancing_states_have_next:
  assumes "on_enter st e f = Inr f1" and "status f1 = MOVE_FORWARD"
    and "st \<noteq> Resources_tips" and "st \<noteq> End"
  shows "edges_from st ''next'' \<noteq> []
     \<and> (if st = Home_screen_logic
         then (\<exists>st1. next_state (variables f1) st ''next'' = Some st1)
              = (home_screen_option (variables f1) = JStr ''competencies''
                 \<or> home_screen_option (variables f1) = JStr ''assessment''
                 \<or> home_screen_option (variables f1) = JStr ''resources''
                 \<or> home_screen_option (variables f1) = JStr ''help'')
         else (\<exists>st1. next_state (variables f1) st ''next'' = Some st1))"
proof (cases "st = Language_selection")
  case True
  then show ?thesis by (simp add: edges_from_empty_iff next_state_simps)
next
  case False
  with assms(1) have "status f1 = final_status st" by (simp add: on_enter_writes)
  with assms(2-4) show ?thesis
    by (cases st)
      (auto simp: final_status_def edges_from_empty_iff next_state_simps
        next_state_home_screen_logic guard_defs)
qed

theorem advancing_states_have_next_witness:
  "on_enter Collect_name_logic (sample_env JNull) (new_fsm\<lparr>current_input := Some ''Asha''\<rparr>) =
     Inr (new_fsm\<lparr>status := MOVE_FORWARD, variables := default_variables\<lparr>name := Some ''Asha''\<rparr>,
                  current_input := Some ''Asha'', status_writes := [WAIT_FOR_ME, MOVE_FORWARD]\<rparr>)
   \<and> edges_from Collect_name_logic ''next'' \<noteq> []
   \<and> (\<exists>st1. next_state (default_variables\<lparr>name := Some ''Asha''\<rparr>) Collect_name_logic ''next''
              = Some st1)"
proof -
  have ret: "on_enter Collect_name_logic (sample_env JNull) (new_fsm\<lparr>current_input := Some ''Asha''\<rparr>) =
     Inr (new_fsm\<lparr>status := MOVE_FORWARD, variables := default_variables\<lparr>name := Some ''Asha''\<rparr>,
                  current_input := Some ''Asha'', status_writes := [WAIT_FOR_ME, MOVE_FORWARD]\<rparr>)"
    by (simp add: on_enter_collect_name_logic_def set_status_def new_fsm_def Let_def)
  from advancing_states_have_next [OF ret] ret show ?thesis
    by (simp add: new_fsm_def)
qed

section \<open>Malformed provider responses\<close>




section \<open>Malformed selection payloads\<close>

text \<open>
  A session resting at \<open>home_screen\<close> receives free text, or the empty list: \<open>advance\<close>
  does not return, the error of \<open>json.loads\<close> or of \<open>options_list[0]\<close> leaves it, and no
  message has been emitted.
\<close>

theorem malformed_selection_counterexample:
  "advance (sample_env JNull) (new_fsm\<lparr>state := Home_screen\<rparr>) (Some ''hello'') =
     Inl (JSONDecodeError,
          new_fsm\<lparr>state := Home_screen_logic, current_input := Some ''hello'',
                  status_writes := [WAIT_FOR_ME], trace := [Home_screen_logic]\<rparr>)
   \<and> advance (sample_env JNull) (new_fsm\<lparr>state := Home_screen\<rparr>) (Some ''[]'') =
     Inl (IndexError,
          new_fsm\<lparr>state := Home_screen_logic, current_input := Some ''[]'',
                  status_writes := [WAIT_FOR_ME], trace := [Home_screen_logic]\<rparr>)"
  by (simp add: advance_def edges_from_empty_iff next_state_simps run.simps enter_def
      on_enter_home_screen_logic_def raise_or_def set_status_def Let_def sample_env_def
      sample_loads_def assessment_payload_def foo_payload_def new_fsm_def seq_index_def)

text \<open>
  C8, as the code has it. When the input at \<open>home_screen_logic\<close> is not a text that
  \<open>json.loads\<close> decodes to a value whose element 0 has an \<open>'option_id'\<close>, the handler
  raises; nothing catches the exception, which leaves the run loop. The handler has then
  only assigned \<open>WAIT_FOR_ME\<close>: no variable is changed and no message asks the user again.
\<close>

theorem malformed_selection_propagates:
  assumes "current_input f = Some s"
    and "\<not> (\<exists>v x oid. loads e s = Inr v \<and> getitem_int v 0 = Inr x
               \<and> getitem_key x ''option_id'' = Inr oid)"
  shows "\<exists>err. on_enter_home_screen_logic e f = Inl (err, set_status WAIT_FOR_ME f)
           \<and> run e Home_screen_logic f =
               Inl (err, set_status WAIT_FOR_ME
                           (f\<lparr>state := Home_screen_logic,
                              trace := trace f @ [Home_screen_logic]\<rparr>))"
  using assms
  by (auto simp: run.simps enter_def on_enter_home_screen_logic_def raise_or_def set_status_def
      Let_def split: sum.splits)

theorem malformed_selection_propagates_witness:
  "\<exists>err. on_enter_home_screen_logic (sample_env JNull) (new_fsm\<lparr>current_input := Some ''hello''\<rparr>) =
           Inl (err, set_status WAIT_FOR_ME (new_fsm\<lparr>current_input := Some ''hello''\<rparr>))"
proof -
  have input: "current_input (new_fsm\<lparr>current_input := Some ''hello''\<rparr>) = Some ''hello''"
    by simp
  have shape: "\<not> (\<exists>v x oid. loads (sample_env JNull) ''hello'' = Inr v \<and> getitem_int v 0 = Inr x
                   \<and> getitem_key x ''option_id'' = Inr oid)"
    by (simp add: sample_env_def sample_loads_def assessment_payload_def foo_payload_def)
  from malformed_selection_propagates [OF input shape] show ?thesis
    by blast
qed

section \<open>The quiz loop\<close>
























section \<open>Entries to \<open>show_question\<close>\<close>

lemma on_enter_keeps:
  assumes "on_enter st e f = Inr f1" and "language_frame e"
  shows "state f1 = state f
     \<and> total_num_question (variables f1) = total_num_question (variables f)
     \<and> (st \<noteq> Assessment \<and> st \<noteq> Thankyou_message \<and> st \<noteq> Question_answer_input
         \<longrightarrow> question_count (variables f1) = question_count (variables f))
     \<and> (st \<noteq> Assessment \<and> st \<noteq> Thankyou_message \<and> st \<noteq> Show_question
         \<longrightarrow> question_list (variables f1) = question_list (variables f))"
proof (cases st)
  case Language_selection
  with assms show ?thesis
    by (auto simp: on_enter_language_selection_def language_frame_def)
next
  case Learn_competencies
  with assms obtain m xs f2 where
    "send_competencies m xs (set_status WAIT_FOR_ME f) = Inr f2" and "f1 = set_status MOVE_FORWARD f2"
    by (auto simp: on_enter_learn_competencies_def raise_or_def Let_def split: sum.splits)
  with send_competencies_frame[of m xs "set_status WAIT_FOR_ME f" f2] show ?thesis
    by (auto simp: set_status_def)
next
  case Resources_tips
  with assms obtain m xs f2 where
    "send_resources m xs (set_status WAIT_FOR_ME f) = Inr f2" and "f1 = set_status MOVE_FORWARD f2"
    by (auto simp: on_enter_resources_tips_def raise_or_def Let_def split: sum.splits)
  with send_resources_frame[of m xs "set_status WAIT_FOR_ME f" f2] show ?thesis
    by (auto simp: set_status_def)
next
  case Show_question
  with assms show ?thesis
    by (auto simp: on_enter_show_question_def get_question_from_openai_def raise_or_def
        set_status_def send_message_def Let_def
        split: sum.splits if_splits option.splits prod.splits)
next
  case Answer_input_logic
  with assms show ?thesis
    by (auto simp: on_enter_answer_input_logic_def raise_or_def set_status_def Let_def
        split: sum.splits)
next
  case Calculate_score
  with assms show ?thesis
    by (auto simp: on_enter_calculate_score_def raise_or_def set_status_def send_message_def
        Let_def split: sum.splits)
next
  case Home_screen_logic
  with assms show ?thesis
    by (auto simp: on_enter_home_screen_logic_def raise_or_def set_status_def Let_def
        split: sum.splits option.splits)
qed (use assms in \<open>auto simp: simple_handler_defs set_status_def send_message_def Let_def\<close>)

lemma show_question_list:
  assumes "on_enter_show_question e f = Inr f1"
  shows "question_list (variables f1) \<noteq> JNull
     \<and> (question_list (variables f) \<noteq> JNull
         \<longrightarrow> question_list (variables f1) = question_list (variables f))"
  using assms
  by (auto simp: on_enter_show_question_def get_question_from_openai_def raise_or_def
      set_status_def send_message_def Let_def
      split: sum.splits if_splits option.splits prod.splits)


lemma enter_keeps:
  assumes "enter e st f = Inr f1" and "language_frame e"
  shows "state f1 = st
     \<and> total_num_question (variables f1) = total_num_question (variables f)
     \<and> (st \<noteq> Assessment \<and> st \<noteq> Thankyou_message \<and> st \<noteq> Question_answer_input
         \<longrightarrow> question_count (variables f1) = question_count (variables f))
     \<and> (st \<noteq> Assessment \<and> st \<noteq> Thankyou_message \<and> st \<noteq> Show_question
         \<longrightarrow> question_list (variables f1) = question_list (variables f))"
  using on_enter_keeps[of st e "f\<lparr>state := st, trace := trace f @ [st]\<rparr>" f1] assms
  by (simp add: enter_def)

lemma before_show_question:
  assumes "next_state v s ''next'' = Some Show_question"
  shows "s = Assessment \<or> (s = Answer_input_logic \<and> question_count v \<noteq> total_num_question v)"
  using assms
  by (cases s)
    (auto simp: next_state_simps next_state_home_screen_logic is_send_another_question_def
      split: if_splits)

lemma next_state_sources:
  "next_state v s ''next'' = Some Assessment \<Longrightarrow> s = Home_screen_logic"
  "next_state v s ''next'' = Some Question_answer_input \<Longrightarrow> s = Show_question"
  "next_state v s ''next'' = Some Answer_input_logic \<Longrightarrow> s = Question_answer_input"
  by (cases s; auto simp: next_state_simps next_state_home_screen_logic split: if_splits)+

lemma reachable_quiz_invariant:
  assumes "reachable f"
  shows "total_num_question (variables f) = 5
     \<and> (state f = Assessment \<longrightarrow>
          question_count (variables f) = 0 \<and> question_list (variables f) = JNull)
     \<and> (state f = Show_question \<longrightarrow>
          question_list (variables f) \<noteq> JNull \<and> 0 \<le> question_count (variables f)
          \<and> question_count (variables f) < 5)
     \<and> (state f = Question_answer_input \<or> state f = Answer_input_logic \<longrightarrow>
          question_list (variables f) \<noteq> JNull \<and> 1 \<le> question_count (variables f)
          \<and> question_count (variables f) \<le> 5)"
  using assms
proof (induction rule: reachable.induct)
  case fresh
  show ?case by (simp add: new_fsm_def default_variables_def)
next
  case (input f x)
  then show ?case by simp
next
  case (entered f e st f1)
  from enter_keeps[OF entered.hyps(4,2)] have keep:
    "state f1 = st" "total_num_question (variables f1) = total_num_question (variables f)"
    "st \<noteq> Assessment \<and> st \<noteq> Thankyou_message \<and> st \<noteq> Question_answer_input
       \<longrightarrow> question_count (variables f1) = question_count (variables f)"
    "st \<noteq> Assessment \<and> st \<noteq> Thankyou_message \<and> st \<noteq> Show_question
       \<longrightarrow> question_list (variables f1) = question_list (variables f)"
    by simp_all
  from entered.IH have N: "total_num_question (variables f) = 5" by simp
  consider (c_assessment) "st = Assessment" | (c_show) "st = Show_question"
    | (c_wait) "st = Question_answer_input" | (c_logic) "st = Answer_input_logic"
    | (c_other) "st \<noteq> Assessment" "st \<noteq> Show_question" "st \<noteq> Question_answer_input"
        "st \<noteq> Answer_input_logic"
    by blast
  then show ?case
  proof cases
    case c_assessment
    with entered.hyps(4) have "question_count (variables f1) = 0 \<and> question_list (variables f1) = JNull"
      by (auto simp: enter_def on_enter_assessment_def set_status_def send_message_def Let_def)
    with keep N c_assessment show ?thesis by simp
  next
    case c_show
    with entered.hyps(3) before_show_question[of "variables f" "state f"]
    have src: "state f = Assessment
         \<or> (state f = Answer_input_logic \<and> question_count (variables f) \<noteq> 5)"
      using N by simp
    from c_show entered.hyps(4) have sq:
      "on_enter_show_question e (f\<lparr>state := Show_question, trace := trace f @ [Show_question]\<rparr>) = Inr f1"
      by (simp add: enter_def)
    from show_question_list[OF sq] have "question_list (variables f1) \<noteq> JNull" by simp
    moreover from src entered.IH keep(3) c_show
    have "0 \<le> question_count (variables f1) \<and> question_count (variables f1) < 5"
      by auto
    ultimately show ?thesis using keep(1,2) N c_show by simp
  next
    case c_wait
    with entered.hyps(3) next_state_sources(2)[of "variables f" "state f"]
    have src: "state f = Show_question" by simp
    from c_wait entered.hyps(4) have "question_count (variables f1) = question_count (variables f) + 1"
      by (auto simp: enter_def on_enter_question_answer_input_def set_status_def Let_def)
    with src entered.IH keep N c_wait show ?thesis by auto
  next
    case c_logic
    with entered.hyps(3) next_state_sources(3)[of "variables f" "state f"]
    have src: "state f = Question_answer_input" by simp
    with entered.IH keep N c_logic show ?thesis by auto
  next
    case c_other
    with keep N show ?thesis by simp
  qed
qed


lemma lookups_not_unbound:
  "getitem_key v k \<noteq> Inl UnboundLocalError"
  "getitem_int v i \<noteq> Inl UnboundLocalError"
  "str_concat t v \<noteq> Inl UnboundLocalError"
  "py_items v \<noteq> Inl UnboundLocalError"
  by (cases v; auto simp: seq_index_def split: option.splits sum.splits)+

lemma show_question_unbound:
  assumes "on_enter_show_question e f = Inl (UnboundLocalError, g)"
    and "\<forall>request. parse_user_input e request \<noteq> Inl UnboundLocalError"
  shows "question_list (variables f) \<noteq> JNull \<and> question_count (variables f) = 0"
  using assms lookups_not_unbound
  by (auto simp: on_enter_show_question_def get_question_from_openai_def raise_or_def
      set_status_def send_message_def Let_def
      split: sum.splits if_splits option.splits prod.splits)

lemma run_reachable:
  "language_frame e \<Longrightarrow> run e st f = Inr f1 \<Longrightarrow> reachable f \<Longrightarrow>
     next_state (variables f) (state f) ''next'' = Some st \<Longrightarrow> reachable f1"
proof (induction e st f rule: run.induct)
  case (1 e st f)
  note frame = "1.prems"(1) and ret = "1.prems"(2) and reach = "1.prems"(3)
    and nxt = "1.prems"(4)
  from ret obtain f2 where f2: "enter e st f = Inr f2"
    by (subst (asm) run.simps) (auto split: sum.splits)
  from reachable.entered[OF reach frame nxt f2] have r2: "reachable f2" .
  from enter_keeps[OF f2 frame] have st2: "state f2 = st" by simp
  show ?case
  proof (cases "status f2 = MOVE_FORWARD \<and> edges_from st ''next'' \<noteq> []")
    case False
    with ret f2 have "f1 = f2"
      by (subst (asm) run.simps) (auto split: if_splits)
    with r2 show ?thesis by simp
  next
    case True
    with ret f2 obtain st1 where st1: "next_state (variables f2) st ''next'' = Some st1"
      and r: "run e st1 f2 = Inr f1"
      by (subst (asm) run.simps) (auto split: option.splits)
    from True have mf: "status f2 = MOVE_FORWARD" and ne: "edges_from st ''next'' \<noteq> []"
      by simp_all
    from st1 st2 have nxt2: "next_state (variables f2) (state f2) ''next'' = Some st1" by simp
    from "1.IH"[OF f2 mf ne st1 frame r r2 nxt2] show ?thesis .
  qed
qed

lemma advance_reachable:
  assumes "reachable f" and "language_frame e" and "advance e f x = Inr f1"
  shows "reachable f1"
proof -
  define f0 where "f0 = (case x of None \<Rightarrow> f | Some y \<Rightarrow> f\<lparr>current_input := Some y\<rparr>)"
  have r0: "reachable f0"
    using assms(1) by (auto simp: f0_def intro: reachable.input split: option.splits)
  show ?thesis
  proof (cases "edges_from (state f0) ''next'' = []")
    case True
    with assms(3) have "f1 = f0" by (simp add: advance_def f0_def[symmetric])
    with r0 show ?thesis by simp
  next
    case False
    with assms(3) obtain st where "next_state (variables f0) (state f0) ''next'' = Some st"
      and "run e st f0 = Inr f1"
      by (auto simp: advance_def f0_def[symmetric] split: option.splits)
    with run_reachable[OF assms(2), of st f0 f1] r0 show ?thesis by simp
  qed
qed

lemma advance_all_reachable:
  assumes "language_frame e"
  shows "reachable f \<Longrightarrow> advance_all e f xs = Inr f1 \<Longrightarrow> reachable f1"
proof (induction xs arbitrary: f)
  case Nil
  then show ?case by simp
next
  case (Cons x xs)
  from Cons.prems(2) obtain f2 where "advance e f (Some x) = Inr f2" "advance_all e f2 xs = Inr f1"
    by (auto split: sum.splits)
  with Cons.IH[of f2] advance_reachable[OF Cons.prems(1) assms] show ?case by blast
qed

text \<open>
  C10. Let a session reached in the flow be about to enter \<open>show_question\<close> (the \<open>next\<close>
  transition of its state leads there). Then \<open>question_list\<close> is \<open>None\<close> if and only if
  \<open>question_count\<close> is 0, so exactly one of the conditions of the handler's two \<open>if\<close>
  statements holds; \<open>question_count\<close> is at least 0 and below \<open>total_num_question\<close>, so it
  is a valid index of every list with at least \<open>total_num_question\<close> elements; and the
  handler does not raise \<open>UnboundLocalError\<close> for \<open>options\<close> (the provider's own errors
  apart).
\<close>

theorem show_question_entry:
  assumes "reachable f"
    and "next_state (variables f) (state f) ''next'' = Some Show_question"
  shows "(question_list (variables f) = JNull) = (question_count (variables f) = 0)
     \<and> 0 \<le> question_count (variables f)
     \<and> question_count (variables f) < total_num_question (variables f)
     \<and> (\<forall>qs. total_num_question (variables f) \<le> int (length qs) \<longrightarrow>
           getitem_int (JList qs) (question_count (variables f))
             = Inr (qs ! nat (question_count (variables f))))
     \<and> (\<forall>e g. (\<forall>request. parse_user_input e request \<noteq> Inl UnboundLocalError) \<longrightarrow>
           enter e Show_question f \<noteq> Inl (UnboundLocalError, g))"
proof -
  from reachable_quiz_invariant[OF assms(1)] have inv:
    "total_num_question (variables f) = 5"
    "state f = Assessment \<longrightarrow>
          question_count (variables f) = 0 \<and> question_list (variables f) = JNull"
    "state f = Question_answer_input \<or> state f = Answer_input_logic \<longrightarrow>
          question_list (variables f) \<noteq> JNull \<and> 1 \<le> question_count (variables f)
          \<and> question_count (variables f) \<le> 5"
    by simp_all
  from before_show_question[OF assms(2)] have src: "state f = Assessment
     \<or> (state f = Answer_input_logic
         \<and> question_count (variables f) \<noteq> total_num_question (variables f))" .
  with inv have iff: "(question_list (variables f) = JNull) = (question_count (variables f) = 0)"
    and lo: "0 \<le> question_count (variables f)"
    and hi: "question_count (variables f) < total_num_question (variables f)"
    by auto
  from lo hi have idx: "\<forall>qs. total_num_question (variables f) \<le> int (length qs) \<longrightarrow>
           getitem_int (JList qs) (question_count (variables f))
             = Inr (qs ! nat (question_count (variables f)))"
    by (simp add: seq_index_def)
  have bound: "\<forall>e g. (\<forall>request. parse_user_input e request \<noteq> Inl UnboundLocalError) \<longrightarrow>
           enter e Show_question f \<noteq> Inl (UnboundLocalError, g)"
  proof (intro allI impI notI)
    fix e g
    assume prov: "\<forall>request. parse_user_input e request \<noteq> Inl UnboundLocalError"
      and raised: "enter e Show_question f = Inl (UnboundLocalError, g)"
    from raised have "on_enter_show_question e
        (f\<lparr>state := Show_question, trace := trace f @ [Show_question]\<rparr>) = Inl (UnboundLocalError, g)"
      by (simp add: enter_def)
    from show_question_unbound[OF this prov] iff show False by simp
  qed
  from iff lo hi idx bound show ?thesis by blast
qed

theorem show_question_entry_witness:
  "reachable session_at_assessment
   \<and> next_state (variables session_at_assessment) (state session_at_assessment) ''next''
       = Some Show_question
   \<and> question_list (variables session_at_assessment) = JNull
   \<and> question_count (variables session_at_assessment) = 0
   \<and> total_num_question (variables session_at_assessment) = 5
   \<and> getitem_int (JList (map sample_question [1, 2, 3, 4, 5]))
         (question_count (variables session_at_assessment)) = Inr (sample_question 1)"
proof -
  have frame: "language_frame (sample_env JNull)"
    by (simp add: language_frame_def sample_env_def set_status_def)
  have a: "advance_all (sample_env JNull) new_fsm [''hi'', ''en'', ''Asha'', ''Maths'', ''5'']
             = Inr session_at_home_screen"
    by code_simp
  have r1: "reachable session_at_home_screen"
    by (rule advance_all_reachable[OF frame reachable.fresh a])
  have r2: "reachable (session_at_home_screen\<lparr>current_input := Some assessment_payload\<rparr>)"
    by (rule reachable.input[OF r1])
  have n2: "next_state (variables (session_at_home_screen\<lparr>current_input := Some assessment_payload\<rparr>))
              (state (session_at_home_screen\<lparr>current_input := Some assessment_payload\<rparr>)) ''next''
            = Some Home_screen_logic"
    by code_simp
  have e2: "enter (sample_env JNull) Home_screen_logic
              (session_at_home_screen\<lparr>current_input := Some assessment_payload\<rparr>)
            = Inr session_at_home_screen_logic"
    by code_simp
  have r3: "reachable session_at_home_screen_logic"
    by (rule reachable.entered[OF r2 frame n2 e2])
  have n3: "next_state (variables session_at_home_screen_logic)
              (state session_at_home_screen_logic) ''next'' = Some Assessment"
    by code_simp
  have e3: "enter (sample_env JNull) Assessment session_at_home_screen_logic
            = Inr session_at_assessment"
    by code_simp
  have r4: "reachable session_at_assessment"
    by (rule reachable.entered[OF r3 frame n3 e3])
  have n4: "next_state (variables session_at_assessment) (state session_at_assessment) ''next''
            = Some Show_question"
    by code_simp
  have len: "total_num_question (variables session_at_assessment)
               \<le> int (length (map sample_question [1, 2, 3, 4, 5]))"
    by code_simp
  have q: "question_list (variables session_at_assessment) = JNull"
    by code_simp
  have c: "question_count (variables session_at_assessment) = 0"
    by code_simp
  have t: "total_num_question (variables session_at_assessment) = 5"
    by code_simp
  from show_question_entry [OF r4 n4]
  have "\<forall>qs. total_num_question (variables session_at_assessment) \<le> int (length qs) \<longrightarrow>
           getitem_int (JList qs) (question_count (variables session_at_assessment))
             = Inr (qs ! nat (question_count (variables session_at_assessment)))"
    by blast
  with len have "getitem_int (JList (map sample_question [1, 2, 3, 4, 5]))
                   (question_count (variables session_at_assessment))
                 = Inr (map sample_question [1, 2, 3, 4, 5]
                          ! nat (question_count (variables session_at_assessment)))"
    by blast
  with c have g: "getitem_int (JList (map sample_question [1, 2, 3, 4, 5]))
                    (question_count (variables session_at_assessment)) = Inr (sample_question 1)"
    by simp
  from r4 n4 q c t g show ?thesis by blast
qed

text \<open>
  The sessions above are those of runs in which no handler raises. A caller that goes on
  with a session after handlers raised can bring it to an entry of \<open>show_question\<close> with
  \<open>question_list\<close> still \<open>None\<close> and \<open>question_count\<close> already 1, where both \<open>if\<close> bodies
  of the handler run.
\<close>

lemma entry_after_errors:
  "state session_resumed_after_errors = Answer_input_logic
   \<and> next_state (variables session_resumed_after_errors) (state session_resumed_after_errors)
         ''next'' = Some Show_question
   \<and> question_list (variables session_resumed_after_errors) = JNull
   \<and> question_count (variables session_resumed_after_errors) = 1"
  by code_simp

end
